theory Spec2Isabelle
  imports Main
begin

section \<open>Python values and string methods used by the notebook\<close>

text \<open>
  The notebook \<^verbatim>\<open>notebook/agentchat_function_call.ipynb\<close> passes around message
  dictionaries whose values are JSON-like Python objects. Only their truthiness and
  whether they are strings matter to the code below.
\<close>

datatype pyval =
    PNone
  | PBool bool
  | PInt int
  | PStr string
  | PList "pyval list"
  | PDict "(string \<times> pyval) list"

datatype py_error =
    AttributeError
  | FileNotFoundError
  | JSONDecodeError
  | FunctionNotFound

text \<open>Python's truth value testing: \<^verbatim>\<open>None\<close>, \<^verbatim>\<open>False\<close>, zero and empty
  containers are false, everything else is true.\<close>

fun truthy :: "pyval \<Rightarrow> bool" where
  "truthy PNone = False"
| "truthy (PBool b) = b"
| "truthy (PInt i) = (i \<noteq> 0)"
| "truthy (PStr s) = (s \<noteq> [])"
| "truthy (PList xs) = (xs \<noteq> [])"
| "truthy (PDict kvs) = (kvs \<noteq> [])"

text \<open>\<^verbatim>\<open>d.get(key, default)\<close>.\<close>

definition py_get :: "('k \<rightharpoonup> 'v) \<Rightarrow> 'k \<Rightarrow> 'v \<Rightarrow> 'v" where
  "py_get d key dflt = (case d key of None \<Rightarrow> dflt | Some v \<Rightarrow> v)"

text \<open>
  A \<open>char\<close> stands for one code point below 256. \<^verbatim>\<open>str.isspace\<close> holds there for
  TAB..CR (9..13), FS..US and SPACE (28..32), NEL (133) and NBSP (160).
\<close>

definition isspace :: "char \<Rightarrow> bool" where
  "isspace c =
     (let n = (of_char c :: nat)
      in (9 \<le> n \<and> n \<le> 13) \<or> (28 \<le> n \<and> n \<le> 32) \<or> n = 133 \<or> n = 160)"

text \<open>\<^verbatim>\<open>s.rstrip()\<close>: drop the trailing whitespace.\<close>

definition rstrip :: "string \<Rightarrow> string" where
  "rstrip s = rev (dropWhile isspace (rev s))"

text \<open>\<^verbatim>\<open>s.endswith(t)\<close>.\<close>

definition endswith :: "string \<Rightarrow> string \<Rightarrow> bool" where
  "endswith s t = (length t \<le> length s \<and> drop (length s - length t) s = t)"

section \<open>Cell 2: the model connection configuration\<close>

type_synonym config = "string \<rightharpoonup> pyval"

text \<open>Modelled from the spec: \<^verbatim>\<open>autogen.config_list_from_json\<close> and the filter
  it applies are library code that the notebook only calls. The spec (External
  interfaces, (a)) calls the input an environment-variable- or file-provided JSON list of
  model connection configurations, and the notebook's own text says that only the models
  with matching names are kept. A filter entry keeps a configuration when
  \<^verbatim>\<open>config.get(key)\<close> is one of the listed values.\<close>

definition filter_config :: "config list \<Rightarrow> (string \<times> pyval list) list \<Rightarrow> config list" where
  "filter_config cfgs filter_dict =
     filter (\<lambda>c. list_all (\<lambda>(key, allowed). py_get c key PNone \<in> set allowed) filter_dict) cfgs"

text \<open>Modelled from the spec: the loader itself. The notebook's text says: it first
  looks for the environment variable, which needs to be a valid json string; if that
  variable is not found, it then looks for a json file of that name; it filters the
  configs by models. The environment, the files and the JSON parser are parameters.\<close>

definition config_list_from_json ::
  "(string \<rightharpoonup> string) \<Rightarrow> (string \<rightharpoonup> string) \<Rightarrow> (string \<Rightarrow> config list option) \<Rightarrow>
   string \<Rightarrow> (string \<times> pyval list) list \<Rightarrow> py_error + config list" where
  "config_list_from_json environ files json_loads env_or_file filter_dict =
     (case environ env_or_file of
        Some s \<Rightarrow>
          (case json_loads s of
             None \<Rightarrow> Inl JSONDecodeError
           | Some cfgs \<Rightarrow> Inr (filter_config cfgs filter_dict))
      | None \<Rightarrow>
          (case files env_or_file of
             None \<Rightarrow> Inl FileNotFoundError
           | Some s \<Rightarrow>
               (case json_loads s of
                  None \<Rightarrow> Inl JSONDecodeError
                | Some cfgs \<Rightarrow> Inr (filter_config cfgs filter_dict))))"

text \<open>
  \<^verbatim>\<open>config_list = autogen.config_list_from_json("OAI_CONFIG_LIST",
      filter_dict={"model": ["gpt-4", "gpt-3.5-turbo", "gpt-3.5-turbo-16k"]})\<close>
\<close>

definition config_list ::
  "(string \<rightharpoonup> string) \<Rightarrow> (string \<rightharpoonup> string) \<Rightarrow> (string \<Rightarrow> config list option) \<Rightarrow>
   py_error + config list" where
  "config_list environ files json_loads =
     config_list_from_json environ files json_loads ''OAI_CONFIG_LIST''
       [(''model'', [PStr ''gpt-4'', PStr ''gpt-3.5-turbo'', PStr ''gpt-3.5-turbo-16k''])]"

section \<open>Cell 3: the agents and the two example functions\<close>

subsection \<open>The user proxy and its termination predicate\<close>

type_synonym message = "string \<rightharpoonup> pyval"

text \<open>
  \<^verbatim>\<open>is_termination_msg=lambda x: x.get("content", "") and
      x.get("content", "").rstrip().endswith("TERMINATE")\<close>

  \<^verbatim>\<open>a and b\<close> is \<open>a\<close> itself when \<open>a\<close> is false, else \<open>b\<close>. Only strings have
  \<^verbatim>\<open>rstrip\<close>: on any other true value the attribute lookup raises.
\<close>

definition is_termination_msg :: "message \<Rightarrow> py_error + pyval" where
  "is_termination_msg x =
     (let c = py_get x ''content'' (PStr '''')
      in if \<not> truthy c then Inr c
         else (case py_get x ''content'' (PStr '''') of
                 PStr s \<Rightarrow> Inr (PBool (endswith (rstrip s) ''TERMINATE''))
               | _ \<Rightarrow> Inl AttributeError))"

text \<open>How a caller reads the predicate's outcome: a raise is not a true value.\<close>

fun is_true :: "py_error + pyval \<Rightarrow> bool" where
  "is_true (Inl e) = False"
| "is_true (Inr v) = truthy v"

datatype human_input_mode = ALWAYS | TERMINATE | NEVER

record user_proxy_agent =
  agent_name :: string
  human_input_mode :: human_input_mode
  max_consecutive_auto_reply :: nat
  work_dir :: string
  use_docker :: bool

definition user_proxy :: user_proxy_agent where
  "user_proxy =
     \<lparr> agent_name = ''user_proxy'',
       human_input_mode = NEVER,
       max_consecutive_auto_reply = 10,
       work_dir = ''coding'',
       use_docker = False \<rparr>"

subsection \<open>exec_python and exec_sh\<close>

text \<open>
  IPython's \<^verbatim>\<open>ExecutionResult\<close>, as far as \<^verbatim>\<open>exec_python\<close> reads it. \<open>None\<close> is
  Python's \<^verbatim>\<open>None\<close>. The types of result objects and of exceptions are left open.
\<close>

record ('v, 'x) ExecutionResult =
  result :: "'v option"
  error_before_exec :: "'x option"
  error_in_exec :: "'x option"

text \<open>
  The IPython kernel is outside the repository. \<open>get_ipython\<close> is \<open>None\<close> when no shell
  is running, else the shell's \<^verbatim>\<open>run_cell\<close>; \<open>str_value\<close> and \<open>str_error\<close> are
  \<^verbatim>\<open>str\<close> on result objects and on exceptions.
\<close>

record ('v, 'x) kernel =
  get_ipython :: "(string \<Rightarrow> ('v, 'x) ExecutionResult) option"
  str_value :: "'v \<Rightarrow> string"
  str_error :: "'x \<Rightarrow> string"

definition newline :: string where
  "newline = [CHR 0x0A]"

text \<open>\<^verbatim>\<open>str(result.result)\<close>, where \<^verbatim>\<open>str(None)\<close> is \<^verbatim>\<open>"None"\<close>.\<close>

definition str_result :: "('v \<Rightarrow> string) \<Rightarrow> 'v option \<Rightarrow> string" where
  "str_result str_v r = (case r of None \<Rightarrow> ''None'' | Some v \<Rightarrow> str_v v)"

text \<open>
  \<^verbatim>\<open>
  def exec_python(cell: Annotated[str, "Valid Python cell to execute."]) -> str:
      ipython = get_ipython()
      result = ipython.run_cell(cell)
      log = str(result.result)
      if result.error_before_exec is not None:
          log += f"\n{result.error_before_exec}"
      if result.error_in_exec is not None:
          log += f"\n{result.error_in_exec}"
      return log
  \<close>
\<close>

definition exec_python :: "('v, 'x) kernel \<Rightarrow> string \<Rightarrow> py_error + string" where
  "exec_python k cell =
     (case get_ipython k of
        None \<Rightarrow> Inl AttributeError
      | Some run_cell \<Rightarrow>
          (let r = run_cell cell;
               log = str_result (str_value k) (result r);
               log = (case error_before_exec r of
                        None \<Rightarrow> log
                      | Some e \<Rightarrow> log @ newline @ str_error k e);
               log = (case error_in_exec r of
                        None \<Rightarrow> log
                      | Some e \<Rightarrow> log @ newline @ str_error k e)
           in Inr log))"

text \<open>
  \<^verbatim>\<open>
  def exec_sh(script: Annotated[str, "Valid Python cell to execute."]) -> str:
      return user_proxy.execute_code_blocks([("sh", script)])
  \<close>
  \<^verbatim>\<open>execute_code_blocks\<close> is a method of the library's agent class; it is a parameter
  here, and what it returns is left open.
\<close>

definition exec_sh :: "((string \<times> string) list \<Rightarrow> pyval) \<Rightarrow> string \<Rightarrow> pyval" where
  "exec_sh execute_code_blocks script = execute_code_blocks [(''sh'', script)]"

text \<open>
  \<^verbatim>\<open>run_cell\<close> executes the cell in the notebook's namespace, where \<^verbatim>\<open>exec_sh\<close> and
  \<^verbatim>\<open>user_proxy\<close> are defined. For the one cell \<^verbatim>\<open>exec_sh("ls")\<close> this is written
  out: its value is what \<^verbatim>\<open>exec_sh\<close> returns on \<^verbatim>\<open>ls\<close>, with no error. Every other
  cell is left to the given kernel.
\<close>

definition kernel_in_namespace ::
  "((string \<times> string) list \<Rightarrow> pyval) \<Rightarrow> (pyval, 'x) kernel \<Rightarrow> (pyval, 'x) kernel" where
  \<open>kernel_in_namespace execute_code_blocks k =
     k\<lparr> get_ipython :=
          map_option
            (\<lambda>run_cell cell.
               if cell = ''exec_sh("ls")''
               then \<lparr> result = Some (exec_sh execute_code_blocks ''ls''),
                      error_before_exec = None, error_in_exec = None \<rparr>
               else run_cell cell)
            (get_ipython k) \<rparr>\<close>

subsection \<open>Registration of the tools\<close>

datatype callable = Exec_python | Exec_sh

record tool_signature =
  tool_name :: string
  tool_description :: string
  tool_func :: callable

record registry =
  llm_tools :: "tool_signature list"
  function_map :: "string \<rightharpoonup> callable"

definition empty_registry :: registry where
  "empty_registry = \<lparr> llm_tools = [], function_map = Map.empty \<rparr>"

text \<open>Modelled from the spec: \<^verbatim>\<open>register_for_llm\<close> is library code that the notebook
  only calls. The spec says the tool signatures are registered by name and description
  with an external dispatch mechanism. So the assistant (\<open>llm_tools\<close>) learns a name
  and a description for the function.\<close>

definition register_for_llm :: "string \<Rightarrow> string \<Rightarrow> callable \<Rightarrow> registry \<Rightarrow> registry" where
  "register_for_llm name description f reg =
     reg\<lparr> llm_tools := llm_tools reg @
            [\<lparr> tool_name = name, tool_description = description, tool_func = f \<rparr>] \<rparr>"

text \<open>Modelled from the spec: \<^verbatim>\<open>register_for_execution\<close> is library code. The spec
  calls a tool a named callable exposed to the agent. So the user proxy
  (\<open>function_map\<close>) binds the name to the callable.\<close>

definition register_for_execution :: "string \<Rightarrow> callable \<Rightarrow> registry \<Rightarrow> registry" where
  "register_for_execution name f reg = reg\<lparr> function_map := (function_map reg)(name \<mapsto> f) \<rparr>"

text \<open>Modelled from the spec: \<^verbatim>\<open>register_function\<close> is library code; it registers
  the function with the caller and with the executor under the given name.\<close>

definition register_function :: "callable \<Rightarrow> string \<Rightarrow> string \<Rightarrow> registry \<Rightarrow> registry" where
  "register_function f name description reg =
     register_for_execution name f (register_for_llm name description f reg)"

text \<open>Modelled from the spec: the dispatch is library code. The spec says the agent's
  request is dispatched to real code by matching it to a locally registered callable and
  invoking it. So a call request runs the callable bound to its name on the request's
  argument.\<close>

definition call_function ::
  "registry \<Rightarrow> ('v, 'x) kernel \<Rightarrow> ((string \<times> string) list \<Rightarrow> pyval) \<Rightarrow>
   string \<Rightarrow> string \<Rightarrow> py_error + pyval" where
  "call_function reg k execute_code_blocks name arg =
     (case function_map reg name of
        None \<Rightarrow> Inl FunctionNotFound
      | Some Exec_python \<Rightarrow> map_sum id PStr (exec_python k arg)
      | Some Exec_sh \<Rightarrow> Inr (exec_sh execute_code_blocks arg))"

text \<open>
  The two registrations of the cell, in the order they run. The decorators apply bottom
  up, and \<^verbatim>\<open>register_for_execution()\<close> without a name uses the name that
  \<^verbatim>\<open>register_for_llm\<close> gave the function:
  \<^verbatim>\<open>
  @user_proxy.register_for_execution()
  @chatbot.register_for_llm(name="python",
      description="run cell in ipython and return the execution result.")
  def exec_python(...)

  autogen.agentchat.register_function(
      exec_python,
      caller=chatbot,
      executor=user_proxy,
      name="sh",
      description="run a shell script and return the execution result.",
  )
  \<close>
\<close>

definition notebook_registry :: registry where
  "notebook_registry =
     register_function Exec_python ''sh'' ''run a shell script and return the execution result.''
       (register_for_execution ''python'' Exec_python
          (register_for_llm ''python'' ''run cell in ipython and return the execution result.''
             Exec_python empty_registry))"

subsection \<open>The exchange\<close>

text \<open>Modelled from the spec: the reply loop of the user proxy is library code. The spec
  says the exchange is bounded, with capped consecutive auto-replies. So the agent counts
  its consecutive automatic replies; on each incoming message it stops when the count has
  reached the cap, or when \<open>is_termination_msg\<close> is true of the message (or raises),
  and otherwise replies and counts one more. \<open>auto_replies cap n ms\<close> is the number of
  automatic replies issued on the incoming messages \<open>ms\<close> when \<open>n\<close> were issued
  before.\<close>

fun auto_replies :: "nat \<Rightarrow> nat \<Rightarrow> message list \<Rightarrow> nat" where
  "auto_replies cap n [] = 0"
| "auto_replies cap n (m # ms) =
     (if cap \<le> n then 0
      else (case is_termination_msg m of
              Inl e \<Rightarrow> 0
            | Inr v \<Rightarrow> if truthy v then 0 else Suc (auto_replies cap (Suc n) ms)))"

text \<open>Modelled from the spec: \<^verbatim>\<open>initiate_chat\<close> is library code. A run starts with
  no automatic reply issued and is capped by the agent's \<open>max_consecutive_auto_reply\<close>.
  With \<open>human_input_mode = NEVER\<close> no human input is requested, so nothing resets the
  count during a run; the result is the number of automatic replies of the run.\<close>

definition initiate_chat :: "user_proxy_agent \<Rightarrow> message list \<Rightarrow> nat" where
  "initiate_chat agent ms = auto_replies (max_consecutive_auto_reply agent) 0 ms"

section \<open>The documentation workflow\<close>

text \<open>
  The workflow \<^verbatim>\<open>docs\<close> is data for the CI service. Its triggers, its jobs with their
  \<^verbatim>\<open>if:\<close> conditions and the steps with their scripts are written down as they stand
  in the file.
\<close>

record trigger =
  event :: string
  branches :: "string list"
  path :: "string list"
  types :: "string list"
  inputs :: "string list"

text \<open>\<^verbatim>\<open>github.event_name != '...'\<close>, the only expression the file uses.\<close>

datatype expr = Event_name_ne string

text \<open>\<^verbatim>\<open>[ -e file ]\<close>, the only test the scripts use.\<close>

datatype shell_test = File_exists string

text \<open>A script line is a simple command, or an \<^verbatim>\<open>if/elif/else/fi\<close> over simple
  commands.\<close>

datatype shell_cmd =
    Cmd string
  | If_chain "(shell_test \<times> string list) list" "string list"

datatype step_action =
    Uses string "(string \<times> string) list"
  | Run "shell_cmd list"

record step =
  step_name :: "string option"
  working_directory :: "string option"
  action :: step_action

record job =
  job_id :: string
  job_if :: "expr option"
  runs_on :: string
  default_working_directory :: string
  steps :: "step list"

record workflow =
  workflow_name :: string
  on_triggers :: "trigger list"
  permissions :: "(string \<times> string) list"
  jobs :: "job list"

definition watched_paths :: "string list" where
  "watched_paths = [''autogen/*'', ''website/*'', ''.github/workflows/deploy-website.yml'']"

definition docs_triggers :: "trigger list" where
  "docs_triggers =
     [ \<lparr> event = ''pull_request'', branches = [''main''], path = watched_paths,
         types = [], inputs = [] \<rparr>,
       \<lparr> event = ''push'', branches = [''main''], path = watched_paths,
         types = [], inputs = [] \<rparr>,
       \<lparr> event = ''workflow_dispatch'', branches = [], path = [],
         types = [], inputs = [] \<rparr>,
       \<lparr> event = ''merge_group'', branches = [], path = [],
         types = [''checks_requested''], inputs = [] \<rparr> ]"

text \<open>The first seven steps are the same text in both jobs.\<close>

definition setup_steps :: "step list" where
  \<open>setup_steps =
     [ \<lparr> step_name = None, working_directory = None,
         action = Uses ''actions/checkout@v3'' [] \<rparr>,
       \<lparr> step_name = None, working_directory = None,
         action = Uses ''actions/setup-node@v4'' [(''node-version'', ''18.x'')] \<rparr>,
       \<lparr> step_name = Some ''setup python'', working_directory = None,
         action = Uses ''actions/setup-python@v4'' [(''python-version'', ''3.8'')] \<rparr>,
       \<lparr> step_name = Some ''pydoc-markdown install'', working_directory = None,
         action = Run [Cmd ''python -m pip install --upgrade pip'',
                       Cmd ''pip install pydoc-markdown''] \<rparr>,
       \<lparr> step_name = Some ''pydoc-markdown run'', working_directory = None,
         action = Run [Cmd ''pydoc-markdown''] \<rparr>,
       \<lparr> step_name = Some ''quarto install'', working_directory = Some ''${{ runner.temp }}'',
         action = Run
           [Cmd ''wget -q https://github.com/quarto-dev/quarto-cli/releases/download/v1.4.549/quarto-1.4.549-linux-amd64.tar.gz'',
            Cmd ''tar -xzf quarto-1.4.549-linux-amd64.tar.gz'',
            Cmd ''echo "$(pwd)/quarto-1.4.549/bin/" >> $GITHUB_PATH''] \<rparr>,
       \<lparr> step_name = Some ''quarto run'', working_directory = None,
         action = Run [Cmd ''quarto render .''] \<rparr> ]\<close>

text \<open>The script of the steps \<^verbatim>\<open>Test Build\<close> and \<^verbatim>\<open>Build website\<close>.\<close>

definition build_script :: "shell_cmd list" where
  "build_script =
     [ If_chain
         [ (File_exists ''yarn.lock'',
              [''yarn install --frozen-lockfile --ignore-engines'', ''yarn build'']),
           (File_exists ''package-lock.json'',
              [''npm ci'', ''npm run build'']) ]
         [''npm i --legacy-peer-deps'', ''npm run build''] ]"

definition checks :: job where
  "checks =
     \<lparr> job_id = ''checks'',
       job_if = Some (Event_name_ne ''push''),
       runs_on = ''ubuntu-latest'',
       default_working_directory = ''website'',
       steps = setup_steps @
         [ \<lparr> step_name = Some ''Test Build'', working_directory = None,
             action = Run build_script \<rparr> ] \<rparr>"

definition gh_release :: job where
  "gh_release =
     \<lparr> job_id = ''gh-release'',
       job_if = Some (Event_name_ne ''pull_request''),
       runs_on = ''ubuntu-latest'',
       default_working_directory = ''website'',
       steps = setup_steps @
         [ \<lparr> step_name = Some ''Build website'', working_directory = None,
             action = Run build_script \<rparr>,
           \<lparr> step_name = Some ''Deploy to GitHub Pages'', working_directory = None,
             action = Uses ''peaceiris/actions-gh-pages@v3''
               [(''github_token'', ''${{ secrets.GITHUB_TOKEN }}''),
                (''publish_dir'', ''./website/build'')] \<rparr> ] \<rparr>"

definition docs_workflow :: workflow where
  "docs_workflow =
     \<lparr> workflow_name = ''docs'',
       on_triggers = docs_triggers,
       permissions = [(''contents'', ''write'')],
       jobs = [checks, gh_release] \<rparr>"

subsection \<open>The conditional constructs of a workflow\<close>

datatype conditional = Job_if expr | Shell_if shell_test

fun shell_cmd_tests :: "shell_cmd \<Rightarrow> shell_test list" where
  "shell_cmd_tests (Cmd c) = []"
| "shell_cmd_tests (If_chain bs els) = map fst bs"

definition step_tests :: "step \<Rightarrow> shell_test list" where
  "step_tests s =
     (case action s of
        Uses a w \<Rightarrow> []
      | Run script \<Rightarrow> concat (map shell_cmd_tests script))"

definition job_conditionals :: "job \<Rightarrow> conditional list" where
  "job_conditionals j =
     (case job_if j of None \<Rightarrow> [] | Some e \<Rightarrow> [Job_if e]) @
     map Shell_if (concat (map step_tests (steps j)))"

definition conditionals :: "workflow \<Rightarrow> conditional list" where
  "conditionals w = concat (map job_conditionals (jobs w))"

text \<open>Whether a conditional construct tests the triggering event type.\<close>

fun tests_event_name :: "conditional \<Rightarrow> bool" where
  "tests_event_name (Job_if (Event_name_ne e)) = True"
| "tests_event_name (Shell_if t) = False"

subsection \<open>Which jobs an event drives\<close>

fun eval_expr :: "string \<Rightarrow> expr \<Rightarrow> bool" where
  "eval_expr event_name (Event_name_ne e) = (event_name \<noteq> e)"

definition jobs_for :: "workflow \<Rightarrow> string \<Rightarrow> job list" where
  "jobs_for w event_name =
     filter (\<lambda>j. case job_if j of None \<Rightarrow> True | Some e \<Rightarrow> eval_expr event_name e) (jobs w)"

text \<open>A step is shown under its name, or under the action it uses when it has none.\<close>

definition step_label :: "step \<Rightarrow> string" where
  "step_label s =
     (case step_name s of
        Some n \<Rightarrow> n
      | None \<Rightarrow> (case action s of Uses a w \<Rightarrow> a | Run script \<Rightarrow> ''''))"

subsection \<open>The commands of a step\<close>

text \<open>The script's \<^verbatim>\<open>if/elif/else\<close>: the body of the first branch whose file test
  holds, else the \<^verbatim>\<open>else\<close> body. \<open>exists f\<close> says whether the file \<open>f\<close> is there.
  The file tests are not external tools: their result only selects the branch.\<close>

fun choose_branch ::
  "(string \<Rightarrow> bool) \<Rightarrow> (shell_test \<times> string list) list \<Rightarrow> string list \<Rightarrow> string list" where
  "choose_branch exists [] els = els"
| "choose_branch exists ((File_exists f, body) # bs) els =
     (if exists f then body else choose_branch exists bs els)"

text \<open>The commands that a script line, a step and a job issue, in the order of the
  file; a \<^verbatim>\<open>uses:\<close> step issues its action.\<close>

fun shell_cmd_commands :: "(string \<Rightarrow> bool) \<Rightarrow> shell_cmd \<Rightarrow> string list" where
  "shell_cmd_commands exists (Cmd c) = [c]"
| "shell_cmd_commands exists (If_chain bs els) = choose_branch exists bs els"

definition step_commands :: "(string \<Rightarrow> bool) \<Rightarrow> step \<Rightarrow> string list" where
  "step_commands exists s =
     (case action s of
        Uses a w \<Rightarrow> [a]
      | Run script \<Rightarrow> concat (map (shell_cmd_commands exists) script))"

definition job_commands :: "(string \<Rightarrow> bool) \<Rightarrow> job \<Rightarrow> string list" where
  "job_commands exists j = concat (map (step_commands exists) (steps j))"

text \<open>The jobs that an event drives, each with the commands it issues.\<close>

definition trigger_commands ::
  "workflow \<Rightarrow> (string \<Rightarrow> bool) \<Rightarrow> string \<Rightarrow> (string \<times> string list) list" where
  "trigger_commands w exists event_name =
     map (\<lambda>j. (job_id j, job_commands exists j)) (jobs_for w event_name)"

subsection \<open>Running a job\<close>

datatype outcome = Success | Failure

text \<open>Modelled from the spec: the CI service that runs the steps is not part of the
  sources. The spec (Error handling) says the CI steps fail and halt the job if any
  invoked external tool exits non-zero. So the commands of a script run in order and the
  script stops, failed, at the first command whose exit status is not zero. The result is
  the list of the commands invoked and the outcome.\<close>

fun run_cmds :: "(string \<Rightarrow> nat) \<Rightarrow> string list \<Rightarrow> string list \<times> outcome" where
  "run_cmds status [] = ([], Success)"
| "run_cmds status (c # cs) =
     (if status c = 0
      then (case run_cmds status cs of (invoked, out) \<Rightarrow> (c # invoked, out))
      else ([c], Failure))"

text \<open>Modelled from the spec: a script of commands and \<^verbatim>\<open>if\<close> chains, stopped at
  the first command that exits non-zero.\<close>

fun run_script ::
  "(string \<Rightarrow> nat) \<Rightarrow> (string \<Rightarrow> bool) \<Rightarrow> shell_cmd list \<Rightarrow> string list \<times> outcome" where
  "run_script status exists [] = ([], Success)"
| "run_script status exists (Cmd c # rest) =
     (if status c = 0
      then (case run_script status exists rest of (invoked, out) \<Rightarrow> (c # invoked, out))
      else ([c], Failure))"
| "run_script status exists (If_chain bs els # rest) =
     (case run_cmds status (choose_branch exists bs els) of
        (invoked, Failure) \<Rightarrow> (invoked, Failure)
      | (invoked, Success) \<Rightarrow>
          (case run_script status exists rest of (invoked', out) \<Rightarrow> (invoked @ invoked', out)))"

text \<open>Modelled from the spec: one step. A \<^verbatim>\<open>uses:\<close> step invokes its action, a
  \<^verbatim>\<open>run:\<close> step its script.\<close>

definition run_step ::
  "(string \<Rightarrow> nat) \<Rightarrow> (string \<Rightarrow> bool) \<Rightarrow> step \<Rightarrow> string list \<times> outcome" where
  "run_step status exists s =
     (case action s of
        Uses a w \<Rightarrow> ([a], if status a = 0 then Success else Failure)
      | Run script \<Rightarrow> run_script status exists script)"

text \<open>Modelled from the spec: the steps of a job run in order, and a failed step halts
  the job. \<open>status label c\<close> is the exit status of the tool \<open>c\<close> invoked in the step
  \<open>label\<close>, \<open>exists f\<close> says whether the file \<open>f\<close> is there. The result lists the
  steps that ran, each with the tools it invoked and its outcome.\<close>

fun run_steps ::
  "(string \<Rightarrow> string \<Rightarrow> nat) \<Rightarrow> (string \<Rightarrow> bool) \<Rightarrow> step list \<Rightarrow>
   (string \<times> string list \<times> outcome) list" where
  "run_steps status exists [] = []"
| "run_steps status exists (s # ss) =
     (case run_step (status (step_label s)) exists s of
        (invoked, Success) \<Rightarrow> (step_label s, invoked, Success) # run_steps status exists ss
      | (invoked, Failure) \<Rightarrow> [(step_label s, invoked, Failure)])"

text \<open>Modelled from the spec: a job runs its steps.\<close>

definition run_job ::
  "(string \<Rightarrow> string \<Rightarrow> nat) \<Rightarrow> (string \<Rightarrow> bool) \<Rightarrow> job \<Rightarrow>
   (string \<times> string list \<times> outcome) list" where
  "run_job status exists j = run_steps status exists (steps j)"

section \<open>Properties of the notebook\<close>

subsection \<open>The registered tools\<close>

lemma notebook_function_map:
  "function_map notebook_registry = [''python'' \<mapsto> Exec_python, ''sh'' \<mapsto> Exec_python]"
  by (simp add: notebook_registry_def register_function_def register_for_execution_def
      register_for_llm_def empty_registry_def)

lemma notebook_llm_tools:
  "llm_tools notebook_registry =
     [ \<lparr> tool_name = ''python'',
         tool_description = ''run cell in ipython and return the execution result.'',
         tool_func = Exec_python \<rparr>,
       \<lparr> tool_name = ''sh'',
         tool_description = ''run a shell script and return the execution result.'',
         tool_func = Exec_python \<rparr> ]"
  by (simp add: notebook_registry_def register_function_def register_for_execution_def
      register_for_llm_def empty_registry_def)

text \<open>
  C1, as the code has it. The notebook registers exactly two tool signatures, the name
  \<^verbatim>\<open>python\<close> with the description "run cell in ipython and return the execution result."
  and the name \<^verbatim>\<open>sh\<close> with the description "run a shell script and return the execution
  result.", and binds exactly these two names. But the callable bound to \<^verbatim>\<open>sh\<close> is
  not \<^verbatim>\<open>exec_sh\<close>: a request for the tool \<^verbatim>\<open>sh\<close> with the script \<^verbatim>\<open>ls\<close> runs
  \<^verbatim>\<open>exec_python\<close> on it, as an IPython cell.
\<close>

theorem sh_tool_is_not_exec_sh:
  "map (\<lambda>t. (tool_name t, tool_description t)) (llm_tools notebook_registry) =
     [(''python'', ''run cell in ipython and return the execution result.''),
      (''sh'', ''run a shell script and return the execution result.'')]
   \<and> dom (function_map notebook_registry) = {''python'', ''sh''}
   \<and> function_map notebook_registry ''sh'' \<noteq> Some Exec_sh
   \<and> call_function notebook_registry k execute_code_blocks ''sh'' ''ls''
       = map_sum id PStr (exec_python k ''ls'')"
  by (auto simp: notebook_function_map notebook_llm_tools call_function_def)

text \<open>
  C10, as stated, fails in its last part: a registered tool can invoke
  \<^verbatim>\<open>user_proxy.execute_code_blocks\<close>. The tool \<^verbatim>\<open>sh\<close> runs its argument as a
  cell, and the cell \<^verbatim>\<open>exec_sh("ls")\<close> calls the method: the outcome of the request is
  what the method returns.
\<close>

theorem sh_tool_cell_reaches_execute_code_blocks:
  \<open>call_function notebook_registry
     (kernel_in_namespace (\<lambda>blocks. PStr ''a.txt'')
        \<lparr> get_ipython = Some (\<lambda>c. \<lparr> result = None, error_before_exec = None,
                                    error_in_exec = None \<rparr>),
          str_value = (\<lambda>v. case v of PStr s \<Rightarrow> s | _ \<Rightarrow> ''''),
          str_error = (\<lambda>e::string. e) \<rparr>)
     (\<lambda>blocks. PStr ''a.txt'') ''sh'' ''exec_sh("ls")'' = Inr (PStr ''a.txt'')
   \<and> call_function notebook_registry
     (kernel_in_namespace (\<lambda>blocks. PStr ''b.txt'')
        \<lparr> get_ipython = Some (\<lambda>c. \<lparr> result = None, error_before_exec = None,
                                    error_in_exec = None \<rparr>),
          str_value = (\<lambda>v. case v of PStr s \<Rightarrow> s | _ \<Rightarrow> ''''),
          str_error = (\<lambda>e::string. e) \<rparr>)
     (\<lambda>blocks. PStr ''b.txt'') ''sh'' ''exec_sh("ls")'' = Inr (PStr ''b.txt'')\<close>
  by (simp add: notebook_function_map call_function_def exec_python_def kernel_in_namespace_def
      exec_sh_def str_result_def)

text \<open>
  C10, amended. \<^verbatim>\<open>exec_sh\<close> is registered with neither agent: every callable in the
  user proxy's function map and behind the assistant's tool signatures is
  \<^verbatim>\<open>exec_python\<close>. The tool \<^verbatim>\<open>sh\<close> dispatches to \<^verbatim>\<open>exec_python\<close> and executes
  its argument as an IPython cell: in a running shell the outcome is the log of
  \<^verbatim>\<open>run_cell\<close> on the argument, and without a shell the call raises. No registered tool
  calls \<^verbatim>\<open>user_proxy.execute_code_blocks\<close> itself: with the kernel held fixed, the
  outcome of every call request is the same whatever that method does. The method is
  reached only when the executed cell calls it.
\<close>

theorem sh_tool_runs_cell_in_ipython:
  "ran (function_map notebook_registry) = {Exec_python}
   \<and> map tool_func (llm_tools notebook_registry) = [Exec_python, Exec_python]
   \<and> function_map notebook_registry ''sh'' = Some Exec_python
   \<and> call_function notebook_registry k execute_code_blocks ''sh'' arg
       = map_sum id PStr (exec_python k arg)
   \<and> (get_ipython k = Some run_cell \<longrightarrow>
        call_function notebook_registry k execute_code_blocks ''sh'' arg =
          Inr (PStr (str_result (str_value k) (result (run_cell arg))
                     @ (case error_before_exec (run_cell arg) of
                          None \<Rightarrow> [] | Some e \<Rightarrow> newline @ str_error k e)
                     @ (case error_in_exec (run_cell arg) of
                          None \<Rightarrow> [] | Some e \<Rightarrow> newline @ str_error k e))))
   \<and> (get_ipython k = None \<longrightarrow>
        call_function notebook_registry k execute_code_blocks ''sh'' arg = Inl AttributeError)
   \<and> call_function notebook_registry k execute_code_blocks name arg
       = call_function notebook_registry k execute_code_blocks' name arg"
  by (auto simp: notebook_function_map notebook_llm_tools call_function_def ran_def
      exec_python_def Let_def split: option.splits)

text \<open>The tool \<^verbatim>\<open>sh\<close> on the script \<^verbatim>\<open>ls\<close>, in a shell where running that cell
  raises: the script is run as Python and the log carries the error.\<close>

theorem sh_tool_runs_cell_in_ipython_witness:
  "call_function notebook_registry
     \<lparr> get_ipython = Some (\<lambda>c. \<lparr> result = None, error_before_exec = None,
                                 error_in_exec = Some ''NameError'' \<rparr>),
       str_value = (\<lambda>v::string. v), str_error = (\<lambda>e::string. e) \<rparr>
     (\<lambda>blocks. PNone) ''sh'' ''ls''
   = Inr (PStr (''None'' @ newline @ ''NameError''))"
  using sh_tool_runs_cell_in_ipython [of
      "\<lparr> get_ipython = Some (\<lambda>c. \<lparr> result = None, error_before_exec = None,
                                 error_in_exec = Some ''NameError'' \<rparr>),
         str_value = (\<lambda>v::string. v), str_error = (\<lambda>e::string. e) \<rparr>"
      "\<lambda>blocks. PNone" "''ls''"
      "\<lambda>c. \<lparr> result = None, error_before_exec = None, error_in_exec = Some ''NameError'' \<rparr>"]
  by (simp add: str_result_def exec_python_def)

subsection \<open>The log of exec_python\<close>

text \<open>
  C2. In a running IPython shell, for every cell, \<^verbatim>\<open>exec_python\<close> returns a string:
  \<^verbatim>\<open>str(result.result)\<close>, then a newline and \<^verbatim>\<open>error_before_exec\<close> as a string if it
  is not \<^verbatim>\<open>None\<close>, then a newline and \<^verbatim>\<open>error_in_exec\<close> as a string if it is not
  \<^verbatim>\<open>None\<close>. The log begins with \<^verbatim>\<open>str(result.result)\<close> and is exactly that when both
  error fields are \<^verbatim>\<open>None\<close>.
\<close>

theorem exec_python_log:
  "get_ipython k = Some run_cell \<Longrightarrow>
   exec_python k cell =
     Inr (str_result (str_value k) (result (run_cell cell))
          @ (case error_before_exec (run_cell cell) of
               None \<Rightarrow> [] | Some e \<Rightarrow> newline @ str_error k e)
          @ (case error_in_exec (run_cell cell) of
               None \<Rightarrow> [] | Some e \<Rightarrow> newline @ str_error k e))
   \<and> (\<exists>rest. exec_python k cell =
          Inr (str_result (str_value k) (result (run_cell cell)) @ rest))
   \<and> (error_before_exec (run_cell cell) = None \<and> error_in_exec (run_cell cell) = None \<longrightarrow>
        exec_python k cell = Inr (str_result (str_value k) (result (run_cell cell))))"
  by (simp add: exec_python_def Let_def split: option.splits)

text \<open>Two runs: a cell that raises while it executes, and a cell with a value.\<close>

theorem exec_python_log_witness:
  "exec_python
     \<lparr> get_ipython = Some (\<lambda>c. \<lparr> result = None, error_before_exec = None,
                                 error_in_exec = Some ''name is not defined'' \<rparr>),
       str_value = (\<lambda>v::string. v), str_error = (\<lambda>e::string. e) \<rparr> ''x''
   = Inr (''None'' @ newline @ ''name is not defined'')
   \<and> exec_python
     \<lparr> get_ipython = Some (\<lambda>c. \<lparr> result = Some ''4'', error_before_exec = None,
                                 error_in_exec = None \<rparr>),
       str_value = (\<lambda>v::string. v), str_error = (\<lambda>e::string. e) \<rparr> ''2 + 2''
   = Inr ''4''"
  using exec_python_log [of
      "\<lparr> get_ipython = Some (\<lambda>c. \<lparr> result = None, error_before_exec = None,
                                 error_in_exec = Some ''name is not defined'' \<rparr>),
         str_value = (\<lambda>v::string. v), str_error = (\<lambda>e::string. e) \<rparr>"
      "\<lambda>c. \<lparr> result = None, error_before_exec = None,
                                 error_in_exec = Some ''name is not defined'' \<rparr>" "''x''"]
    exec_python_log [of
      "\<lparr> get_ipython = Some (\<lambda>c. \<lparr> result = Some ''4'', error_before_exec = None,
                                 error_in_exec = None \<rparr>),
         str_value = (\<lambda>v::string. v), str_error = (\<lambda>e::string. e) \<rparr>"
      "\<lambda>c. \<lparr> result = Some ''4'', error_before_exec = None,
                                 error_in_exec = None \<rparr>" "''2 + 2''"]
  by (simp add: str_result_def)

text \<open>Outside a shell there is no log: the attribute lookup on \<^verbatim>\<open>None\<close> raises.\<close>

lemma exec_python_no_shell:
  "get_ipython k = None \<Longrightarrow> exec_python k cell = Inl AttributeError"
  by (simp add: exec_python_def)

text \<open>\<^verbatim>\<open>exec_sh\<close> returns what \<^verbatim>\<open>execute_code_blocks\<close> returns on the one block.\<close>

lemma exec_sh_result:
  "exec_sh execute_code_blocks script = execute_code_blocks [(''sh'', script)]"
  by (simp add: exec_sh_def)

subsection \<open>The termination predicate\<close>

text \<open>
  C9. For every message \<open>x\<close>, \<^verbatim>\<open>is_termination_msg(x)\<close> is true exactly when \<open>x\<close> has
  a non-empty text under \<^verbatim>\<open>"content"\<close> whose right-stripped form ends with
  \<^verbatim>\<open>TERMINATE\<close>. A message with missing or empty content is not a termination message,
  and on non-empty text that does not end so the predicate returns the boolean
  \<^verbatim>\<open>False\<close>, not the text.
\<close>

theorem is_termination_msg_truthy:
  "(is_true (is_termination_msg x) \<longleftrightarrow>
      (\<exists>s. x ''content'' = Some (PStr s) \<and> s \<noteq> [] \<and> endswith (rstrip s) ''TERMINATE''))
   \<and> (x ''content'' = None \<or> x ''content'' = Some (PStr '''') \<longrightarrow>
        \<not> is_true (is_termination_msg x))
   \<and> (\<forall>s. x ''content'' = Some (PStr s) \<and> s \<noteq> [] \<and> \<not> endswith (rstrip s) ''TERMINATE'' \<longrightarrow>
        is_termination_msg x = Inr (PBool False))"
proof (cases "x ''content''")
  case None
  then show ?thesis by (simp add: is_termination_msg_def py_get_def)
next
  case (Some v)
  then show ?thesis
    by (cases v) (auto simp: is_termination_msg_def py_get_def)
qed

text \<open>A reply that ends the chat, a message without content, one with empty content,
  and one that only mentions the word.\<close>

theorem is_termination_msg_truthy_witness:
  "is_true (is_termination_msg [''content'' \<mapsto> PStr (''Done. TERMINATE'' @ newline)])
   \<and> \<not> is_true (is_termination_msg Map.empty)
   \<and> \<not> is_true (is_termination_msg [''content'' \<mapsto> PStr ''''])
   \<and> is_termination_msg [''content'' \<mapsto> PStr ''TERMINATE later''] = Inr (PBool False)"
  using is_termination_msg_truthy [of "[''content'' \<mapsto> PStr (''Done. TERMINATE'' @ newline)]"]
    is_termination_msg_truthy [of Map.empty]
    is_termination_msg_truthy [of "[''content'' \<mapsto> PStr '''']"]
    is_termination_msg_truthy [of "[''content'' \<mapsto> PStr ''TERMINATE later'']"]
  by (simp add: rstrip_def endswith_def isspace_def newline_def)

text \<open>Content that is true but not text makes the predicate raise.\<close>

lemma is_termination_msg_raises:
  "is_termination_msg [''content'' \<mapsto> PList [PStr ''TERMINATE'']] = Inl AttributeError"
  by (simp add: is_termination_msg_def py_get_def)

subsection \<open>The bound on the exchange\<close>

lemma auto_replies_bound: "n + auto_replies cap n ms \<le> max cap n"
proof (induction ms arbitrary: n)
  case Nil
  show ?case by simp
next
  case (Cons m ms)
  show ?case
  proof (cases "cap \<le> n")
    case True
    then show ?thesis by simp
  next
    case False
    with Cons.IH [of "Suc n"] show ?thesis
      by (auto split: sum.splits)
  qed
qed

text \<open>
  C3. The user proxy never asks for human input and its cap is 10, so in every run,
  whatever the assistant sends, it issues at most 10 consecutive automatic replies.
\<close>

theorem auto_replies_capped:
  "human_input_mode user_proxy = NEVER
   \<and> max_consecutive_auto_reply user_proxy = 10
   \<and> initiate_chat user_proxy ms \<le> 10"
  using auto_replies_bound [of 0 10 ms]
  by (simp add: initiate_chat_def user_proxy_def)

text \<open>The cap is reached when the assistant never terminates.\<close>

lemma auto_replies_cap_reached:
  "initiate_chat user_proxy (replicate 12 [''content'' \<mapsto> PStr ''next'']) = 10"
  by (simp add: initiate_chat_def user_proxy_def is_termination_msg_def py_get_def
      rstrip_def endswith_def eval_nat_numeral)

subsection \<open>The configuration list\<close>

text \<open>
  C8. The configuration list is the JSON list found in the environment variable
  \<^verbatim>\<open>OAI_CONFIG_LIST\<close> or, without that variable, in the file of that name, and of that
  list exactly the entries whose model is \<^verbatim>\<open>gpt-4\<close>, \<^verbatim>\<open>gpt-3.5-turbo\<close> or
  \<^verbatim>\<open>gpt-3.5-turbo-16k\<close> are kept.
\<close>

theorem config_list_loaded_and_filtered:
  "config_list environ files json_loads = Inr cl \<longleftrightarrow>
     (\<exists>s cfgs.
        (environ ''OAI_CONFIG_LIST'' = Some s
         \<or> (environ ''OAI_CONFIG_LIST'' = None \<and> files ''OAI_CONFIG_LIST'' = Some s))
        \<and> json_loads s = Some cfgs
        \<and> cl = filter (\<lambda>c. c ''model'' \<in> {Some (PStr ''gpt-4''), Some (PStr ''gpt-3.5-turbo''),
                                          Some (PStr ''gpt-3.5-turbo-16k'')}) cfgs)"
proof -
  have f: "filter_config cfgs
        [(''model'', [PStr ''gpt-4'', PStr ''gpt-3.5-turbo'', PStr ''gpt-3.5-turbo-16k''])]
      = filter (\<lambda>c. c ''model'' \<in> {Some (PStr ''gpt-4''), Some (PStr ''gpt-3.5-turbo''),
                                    Some (PStr ''gpt-3.5-turbo-16k'')}) cfgs" for cfgs
    unfolding filter_config_def
    by (rule filter_cong) (auto simp: py_get_def split: option.splits)
  show ?thesis
    unfolding config_list_def config_list_from_json_def f
    by (auto split: option.splits)
qed

text \<open>A file with three entries and no environment variable: the entry of another
  model and the entry without a model are dropped.\<close>

theorem config_list_loaded_and_filtered_witness:
  "config_list Map.empty [''OAI_CONFIG_LIST'' \<mapsto> ''[...]'']
     (\<lambda>s. Some [[''model'' \<mapsto> PStr ''gpt-4''], [''model'' \<mapsto> PStr ''llama''],
                 [''api_key'' \<mapsto> PStr ''k'']])
   = Inr [[''model'' \<mapsto> PStr ''gpt-4'']]"
  using config_list_loaded_and_filtered [of Map.empty "[''OAI_CONFIG_LIST'' \<mapsto> ''[...]'']"
      "\<lambda>s. Some [[''model'' \<mapsto> PStr ''gpt-4''], [''model'' \<mapsto> PStr ''llama''],
                  [''api_key'' \<mapsto> PStr ''k'']]"
      "[[''model'' \<mapsto> PStr ''gpt-4'']]"]
  by simp

section \<open>Properties of the workflow\<close>

text \<open>
  C4, as stated, fails: not every conditional construct of the workflow tests the
  triggering event type. The scripts of two steps branch on whether a lock file exists.
\<close>

theorem workflow_branches_counterexample:
  "Shell_if (File_exists ''yarn.lock'') \<in> set (conditionals docs_workflow)
   \<and> \<not> tests_event_name (Shell_if (File_exists ''yarn.lock''))
   \<and> \<not> list_all tests_event_name (conditionals docs_workflow)"
  by (simp add: conditionals_def docs_workflow_def job_conditionals_def checks_def
      gh_release_def step_tests_def setup_steps_def build_script_def)

text \<open>
  C4, amended. The two job-level \<^verbatim>\<open>if:\<close> conditions test the triggering event type
  (\<^verbatim>\<open>github.event_name\<close>). The only other conditional construct is the shell
  \<^verbatim>\<open>if/elif\<close> of the steps \<^verbatim>\<open>Test Build\<close> and \<^verbatim>\<open>Build website\<close>, which tests whether
  \<^verbatim>\<open>yarn.lock\<close> and then \<^verbatim>\<open>package-lock.json\<close> exist; no other step contains a branch.
\<close>

theorem workflow_branches:
  "map job_if (jobs docs_workflow) =
     [Some (Event_name_ne ''push''), Some (Event_name_ne ''pull_request'')]
   \<and> list_all tests_event_name
       (concat (map (\<lambda>j. case job_if j of None \<Rightarrow> [] | Some e \<Rightarrow> [Job_if e])
          (jobs docs_workflow)))
   \<and> map (\<lambda>j. map (\<lambda>s. (step_name s, step_tests s))
                 (filter (\<lambda>s. step_tests s \<noteq> []) (steps j))) (jobs docs_workflow) =
     [ [(Some ''Test Build'', [File_exists ''yarn.lock'', File_exists ''package-lock.json''])],
       [(Some ''Build website'', [File_exists ''yarn.lock'', File_exists ''package-lock.json''])] ]"
  by (simp add: docs_workflow_def checks_def gh_release_def step_tests_def setup_steps_def
      build_script_def)

text \<open>
  C5, as stated, fails: the sequence of commands that a trigger drives is not fixed. On
  the same pull request the job \<^verbatim>\<open>checks\<close> ends with the two \<^verbatim>\<open>yarn\<close> commands when
  \<^verbatim>\<open>yarn.lock\<close> exists and with \<^verbatim>\<open>npm i --legacy-peer-deps\<close> and \<^verbatim>\<open>npm run build\<close>
  when no lock file exists.
\<close>

theorem trigger_commands_vary:
  "drop 10 (job_commands (\<lambda>f. f = ''yarn.lock'') checks) =
     [''yarn install --frozen-lockfile --ignore-engines'', ''yarn build'']
   \<and> drop 10 (job_commands (\<lambda>f. False) checks) =
     [''npm i --legacy-peer-deps'', ''npm run build'']
   \<and> trigger_commands docs_workflow (\<lambda>f. f = ''yarn.lock'') ''pull_request''
       \<noteq> trigger_commands docs_workflow (\<lambda>f. False) ''pull_request''"
  by (simp add: trigger_commands_def jobs_for_def docs_workflow_def job_commands_def
      step_commands_def checks_def gh_release_def setup_steps_def build_script_def)

text \<open>
  C5, amended. The workflow has exactly four triggers: pull request, push (both on the
  branch \<^verbatim>\<open>main\<close>), manual dispatch and merge group. None declares an input, so a
  trigger carries no flag of its own. Each drives a fixed sequence of steps: a pull
  request the job \<^verbatim>\<open>checks\<close>, a push the job \<^verbatim>\<open>gh-release\<close>, a manual dispatch and a
  merge group both. The commands of every step are fixed, except in the build step
  (\<^verbatim>\<open>Test Build\<close>, \<^verbatim>\<open>Build website\<close>), which issues the two \<^verbatim>\<open>yarn\<close> commands if
  \<^verbatim>\<open>yarn.lock\<close> exists, else \<^verbatim>\<open>npm ci\<close> and \<^verbatim>\<open>npm run build\<close> if
  \<^verbatim>\<open>package-lock.json\<close> exists, else \<^verbatim>\<open>npm i --legacy-peer-deps\<close> and
  \<^verbatim>\<open>npm run build\<close>; \<^verbatim>\<open>gh-release\<close> then publishes.
\<close>

theorem triggers_drive_commands:
  \<open>(let setup =
          [''actions/checkout@v3'', ''actions/setup-node@v4'', ''actions/setup-python@v4'',
           ''python -m pip install --upgrade pip'', ''pip install pydoc-markdown'',
           ''pydoc-markdown'',
           ''wget -q https://github.com/quarto-dev/quarto-cli/releases/download/v1.4.549/quarto-1.4.549-linux-amd64.tar.gz'',
           ''tar -xzf quarto-1.4.549-linux-amd64.tar.gz'',
           ''echo "$(pwd)/quarto-1.4.549/bin/" >> $GITHUB_PATH'',
           ''quarto render .''];
        build =
          (if exists ''yarn.lock''
           then [''yarn install --frozen-lockfile --ignore-engines'', ''yarn build'']
           else if exists ''package-lock.json''
           then [''npm ci'', ''npm run build'']
           else [''npm i --legacy-peer-deps'', ''npm run build'']);
        checks_commands = (''checks'', setup @ build);
        release_commands = (''gh-release'', setup @ build @ [''peaceiris/actions-gh-pages@v3''])
    in map event (on_triggers docs_workflow) =
         [''pull_request'', ''push'', ''workflow_dispatch'', ''merge_group'']
       \<and> map branches (on_triggers docs_workflow) = [[''main''], [''main''], [], []]
       \<and> concat (map inputs (on_triggers docs_workflow)) = []
       \<and> trigger_commands docs_workflow exists ''pull_request'' = [checks_commands]
       \<and> trigger_commands docs_workflow exists ''push'' = [release_commands]
       \<and> trigger_commands docs_workflow exists ''workflow_dispatch'' =
           [checks_commands, release_commands]
       \<and> trigger_commands docs_workflow exists ''merge_group'' =
           [checks_commands, release_commands]
       \<and> map step_label (steps checks) =
           [''actions/checkout@v3'', ''actions/setup-node@v4'', ''setup python'',
            ''pydoc-markdown install'', ''pydoc-markdown run'', ''quarto install'',
            ''quarto run'', ''Test Build'']
       \<and> map step_label (steps gh_release) =
           [''actions/checkout@v3'', ''actions/setup-node@v4'', ''setup python'',
            ''pydoc-markdown install'', ''pydoc-markdown run'', ''quarto install'',
            ''quarto run'', ''Build website'', ''Deploy to GitHub Pages''])\<close>
  by (simp add: Let_def trigger_commands_def jobs_for_def docs_workflow_def docs_triggers_def
      job_commands_def step_commands_def step_label_def checks_def gh_release_def
      setup_steps_def build_script_def)

subsection \<open>A tool that exits non-zero\<close>

lemma run_cmds_nonzero:
  "run_cmds status cs = (invoked, out) \<Longrightarrow> c \<in> set invoked \<Longrightarrow> status c \<noteq> 0 \<Longrightarrow> out = Failure"
proof (induction cs arbitrary: invoked out)
  case Nil
  then show ?case by simp
next
  case (Cons a cs)
  then show ?case
    by (cases "status a = 0") (auto split: prod.splits)
qed

lemma run_script_nonzero:
  "run_script status exists script = (invoked, out) \<Longrightarrow> c \<in> set invoked \<Longrightarrow>
   status c \<noteq> 0 \<Longrightarrow> out = Failure"
proof (induction status exists script arbitrary: invoked out rule: run_script.induct)
  case (1 status exists)
  then show ?case by simp
next
  case (2 status exists a rest)
  then show ?case
    by (cases "status a = 0") (auto split: prod.splits)
next
  case (3 status exists bs els rest)
  obtain inv1 out1 where r1: "run_cmds status (choose_branch exists bs els) = (inv1, out1)"
    by (cases "run_cmds status (choose_branch exists bs els)")
  show ?case
  proof (cases out1)
    case Failure
    with r1 "3.prems" show ?thesis by simp
  next
    case Success
    obtain inv2 out2 where r2: "run_script status exists rest = (inv2, out2)"
      by (cases "run_script status exists rest")
    from r1 Success r2 "3.prems" have inv: "invoked = inv1 @ inv2" and out: "out = out2"
      by simp_all
    from run_cmds_nonzero [OF r1] Success "3.prems"(3) have "c \<notin> set inv1"
      by auto
    with inv "3.prems"(2) have "c \<in> set inv2" by simp
    with "3.IH" [OF r1 [symmetric] Success r2] "3.prems"(3) out show ?thesis
      by simp
  qed
qed

lemma run_step_nonzero:
  "run_step status exists s = (invoked, out) \<Longrightarrow> c \<in> set invoked \<Longrightarrow>
   status c \<noteq> 0 \<Longrightarrow> out = Failure"
  by (cases "action s") (auto simp: run_step_def dest: run_script_nonzero split: if_splits)

lemma run_steps_failure_last:
  "i < length (run_steps status exists ss) \<Longrightarrow>
   snd (snd (run_steps status exists ss ! i)) = Failure \<Longrightarrow>
   length (run_steps status exists ss) = Suc i"
proof (induction ss arbitrary: i)
  case Nil
  then show ?case by simp
next
  case (Cons s ss)
  obtain invoked out where r: "run_step (status (step_label s)) exists s = (invoked, out)"
    by (cases "run_step (status (step_label s)) exists s")
  show ?case
  proof (cases out)
    case Failure
    with r Cons.prems show ?thesis by simp
  next
    case Success
    with r Cons.prems Cons.IH show ?thesis
      by (cases i) auto
  qed
qed

lemma run_steps_entry:
  "i < length (run_steps status exists ss) \<Longrightarrow>
   run_steps status exists ss ! i = (label, invoked, out) \<Longrightarrow>
   i < length ss \<and> label = step_label (ss ! i)
   \<and> run_step (status label) exists (ss ! i) = (invoked, out)"
proof (induction ss arbitrary: i)
  case Nil
  then show ?case by simp
next
  case (Cons s ss)
  obtain inv1 out1 where r: "run_step (status (step_label s)) exists s = (inv1, out1)"
    by (cases "run_step (status (step_label s)) exists s")
  show ?case
  proof (cases i)
    case 0
    with r Cons.prems show ?thesis by (cases out1) auto
  next
    case (Suc k)
    with r Cons.prems have out1: "out1 = Success" by (cases out1) auto
    with r Suc Cons.prems Cons.IH [of k] show ?thesis by auto
  qed
qed

lemma run_steps_prefix:
  "map fst (run_steps status exists ss) =
     take (length (run_steps status exists ss)) (map step_label ss)"
proof (induction ss)
  case Nil
  show ?case by simp
next
  case (Cons s ss)
  then show ?case
    by (auto split: prod.splits outcome.splits)
qed

text \<open>
  C7. In each job of the workflow, if a tool invoked in a step that runs exits with a
  non-zero status, then that step fails and it is the last step of the job that runs:
  the steps that ran are the steps of the job up to it.
\<close>

theorem nonzero_exit_halts_job:
  "j \<in> set (jobs docs_workflow) \<Longrightarrow> i < length (run_job status exists j) \<Longrightarrow>
   run_job status exists j ! i = (label, invoked, out) \<Longrightarrow>
   c \<in> set invoked \<Longrightarrow> status label c \<noteq> 0 \<Longrightarrow>
   out = Failure \<and> length (run_job status exists j) = Suc i
   \<and> map fst (run_job status exists j) = take (Suc i) (map step_label (steps j))"
proof -
  assume i: "i < length (run_job status exists j)"
    and e: "run_job status exists j ! i = (label, invoked, out)"
    and c: "c \<in> set invoked" "status label c \<noteq> 0"
  from run_steps_entry [OF i [unfolded run_job_def] e [unfolded run_job_def]]
  have "run_step (status label) exists (steps j ! i) = (invoked, out)" by blast
  from run_step_nonzero [OF this c] have out: "out = Failure" .
  with run_steps_failure_last [OF i [unfolded run_job_def]] e
  have len: "length (run_job status exists j) = Suc i"
    by (simp add: run_job_def)
  from run_steps_prefix [of status exists "steps j"] len
  have "map fst (run_job status exists j) = take (Suc i) (map step_label (steps j))"
    by (simp add: run_job_def)
  with out len show ?thesis by simp
qed

text \<open>The job \<^verbatim>\<open>checks\<close> when \<^verbatim>\<open>pydoc-markdown\<close> exits with status 1: the fifth step
  fails and the three steps after it do not run.\<close>

theorem nonzero_exit_halts_job_witness:
  "run_job (\<lambda>label c. if c = ''pydoc-markdown'' then 1 else 0) (\<lambda>f. False) checks =
     [ (''actions/checkout@v3'', [''actions/checkout@v3''], Success),
       (''actions/setup-node@v4'', [''actions/setup-node@v4''], Success),
       (''setup python'', [''actions/setup-python@v4''], Success),
       (''pydoc-markdown install'',
          [''python -m pip install --upgrade pip'', ''pip install pydoc-markdown''], Success),
       (''pydoc-markdown run'', [''pydoc-markdown''], Failure) ]"
  using nonzero_exit_halts_job [of checks 4 "\<lambda>label c. if c = ''pydoc-markdown'' then 1 else 0"
      "\<lambda>f. False" "''pydoc-markdown run''" "[''pydoc-markdown'']" Failure "''pydoc-markdown''"]
  by (simp add: run_job_def checks_def setup_steps_def run_step_def step_label_def
      docs_workflow_def)

end
